theory Spec2Isabelle
  imports Main "HOL-Library.Word"
begin

section \<open>Data model of the load-balancer controller\<close>

text \<open>
  The controller of \<^verbatim>\<open>pkg/loadbalancer/controller.go\<close> reads Service objects from an
  informer cache, writes their status through the API client and keeps a table of
  assigned tunnels (\<^verbatim>\<open>serviceTracker\<close>). The Kubernetes types are modelled with the fields
  the controller touches, under their Go names.
\<close>

text \<open>Go's \<^verbatim>\<open>error\<close> values the controller can see: the key-format error of
  \<^verbatim>\<open>cache.SplitMetaNamespaceKey\<close>, the API "not found" status, and any other API failure.\<close>

datatype error =
    UnexpectedKeyFormat string
  | StatusNotFound
  | StatusFailure string

fun IsNotFound :: "error \<Rightarrow> bool" where
  "IsNotFound StatusNotFound = True"
| "IsNotFound _ = False"

text \<open>A call either returns its value or panics (an index out of range at run time).\<close>

datatype 'a outcome = Returned 'a | Panicked

record ServicePort =
  Port :: "32 word"

record ServiceSpec =
  Type :: string
  ClusterIP :: string
  Ports :: "ServicePort list"

record LoadBalancerIngress =
  IP :: string
  Hostname :: string

record LoadBalancerStatus =
  Ingress :: "LoadBalancerIngress list"

record ServiceStatus =
  LoadBalancer :: LoadBalancerStatus

record Service =
  Name :: string
  Namespace :: string
  Spec :: ServiceSpec
  Status :: ServiceStatus

definition ServiceTypeLoadBalancer :: string where
  "ServiceTypeLoadBalancer = ''LoadBalancer''"

definition maxRetries :: nat where
  "maxRetries = 12"

text \<open>\<^verbatim>\<open>type ingress struct { hostname string; service string }\<close>\<close>

record ingress =
  hostname :: string
  service :: string

text \<open>\<^verbatim>\<open>config.Config\<close>: the three options \<^verbatim>\<open>cmd/main.go\<close> fills from the flags.\<close>

record Config =
  Domain :: string
  TunnelID :: string
  CredentialsFile :: string

text \<open>
  Modelled from the spec: the rate-limited work queue is the client-go library's, not
  the repository's. Per key it keeps the attempt counter that \<^verbatim>\<open>NumRequeues\<close> reads,
  \<^verbatim>\<open>AddRateLimited\<close> increments and \<^verbatim>\<open>Forget\<close> resets to zero; \<open>waiting\<close> lists the keys
  re-enqueued by \<^verbatim>\<open>AddRateLimited\<close>, each with the count of earlier attempts its backoff
  delay is derived from. Delays themselves are not modelled.
\<close>

record RateLimitingQueue =
  failures :: "string \<Rightarrow> nat"
  waiting :: "(string \<times> nat) list"

text \<open>
  The controller together with the collaborators \<^verbatim>\<open>syncServices\<close> talks to.
  \<^item> \<open>serviceTracker\<close> is the Go map; a missing key reads as the zero \<^verbatim>\<open>ingress\<close>.
  \<^item> \<open>services\<close> is the informer cache behind \<^verbatim>\<open>serviceLister\<close>, by namespace and name:
    the object, or the error \<^verbatim>\<open>Get\<close> returns. The lister hands out a pointer to the cached
    object, so an assignment to \<^verbatim>\<open>service.Status\<close> changes the cache entry.
  \<^item> \<open>updateStatusErr\<close> says which error, if any, the API server answers to
    \<^verbatim>\<open>UpdateStatus\<close>; \<open>updateCalls\<close> records every such call issued, in order.
\<close>

record controller =
  config :: Config
  queue :: RateLimitingQueue
  serviceTracker :: "string \<rightharpoonup> ingress"
  services :: "string \<times> string \<Rightarrow> error + Service"
  updateStatusErr :: "string \<Rightarrow> Service \<Rightarrow> error option"
  updateCalls :: "(string \<times> Service) list"

section \<open>Library functions the controller calls\<close>

text \<open>\<^verbatim>\<open>strings.Split(key, "/")\<close>: the pieces between the separators, at least one.\<close>

fun splitOn :: "char \<Rightarrow> string \<Rightarrow> string list" where
  "splitOn sep [] = [[]]"
| "splitOn sep (c # cs) =
     (if c = sep then [] # splitOn sep cs
      else (case splitOn sep cs of
              [] \<Rightarrow> [[c]]
            | p # ps \<Rightarrow> (c # p) # ps))"

text \<open>
  Modelled from the spec: \<^verbatim>\<open>cache.SplitMetaNamespaceKey\<close> belongs to the client-go library
  and is not part of the repository. The spec gives the canonical key as
  \<^verbatim>\<open>namespace/name\<close> and calls every other queue item malformed; as in the library, a key
  without separator is a name in the empty namespace, and more than one separator is the
  key-format error.
\<close>

definition SplitMetaNamespaceKey :: "string \<Rightarrow> error + (string \<times> string)" where
  "SplitMetaNamespaceKey key =
     (case splitOn CHR ''/'' key of
        [name] \<Rightarrow> Inr ('''', name)
      | [namespace, name] \<Rightarrow> Inr (namespace, name)
      | _ \<Rightarrow> Inl (UnexpectedKeyFormat key))"

text \<open>\<^verbatim>\<open>strconv.Itoa\<close>: the decimal digits, with a sign for a negative number.\<close>

fun utoa :: "nat \<Rightarrow> string" where
  "utoa n =
     (if n < 10 then [''0123456789'' ! n]
      else utoa (n div 10) @ [''0123456789'' ! (n mod 10)])"

declare utoa.simps [simp del]

definition Itoa :: "int \<Rightarrow> string" where
  "Itoa i = (if i < 0 then CHR ''-'' # utoa (nat (- i)) else utoa (nat i))"

text \<open>\<^verbatim>\<open>net.JoinHostPort\<close>: a host with a colon is taken for an IPv6 literal and bracketed.\<close>

definition JoinHostPort :: "string \<Rightarrow> string \<Rightarrow> string" where
  "JoinHostPort host port =
     (if CHR '':'' \<in> set host then ''['' @ host @ '']:'' @ port
      else host @ '':'' @ port)"

text \<open>
  Modelled from the spec: the three operations of the library's queue that \<^verbatim>\<open>handleErr\<close>
  calls. \<^verbatim>\<open>NumRequeues\<close> exposes the attempt counter of a key, \<^verbatim>\<open>AddRateLimited\<close> re-enqueues
  the key with a delay derived from the counter and counts the attempt, \<^verbatim>\<open>Forget\<close> resets
  the counter to zero.
\<close>

definition NumRequeues :: "RateLimitingQueue \<Rightarrow> string \<Rightarrow> nat" where
  "NumRequeues q key = failures q key"

definition AddRateLimited :: "string \<Rightarrow> RateLimitingQueue \<Rightarrow> RateLimitingQueue" where
  "AddRateLimited key q =
     q\<lparr>failures := (failures q)(key := failures q key + 1),
       waiting := waiting q @ [(key, failures q key)]\<rparr>"

definition Forget :: "string \<Rightarrow> RateLimitingQueue \<Rightarrow> RateLimitingQueue" where
  "Forget key q = q\<lparr>failures := (failures q)(key := 0)\<rparr>"

section \<open>The service tracker\<close>

definition addService :: "string \<Rightarrow> ingress \<Rightarrow> controller \<Rightarrow> controller" where
  "addService key i c = c\<lparr>serviceTracker := (serviceTracker c)(key \<mapsto> i)\<rparr>"

definition getServiceIngress :: "controller \<Rightarrow> string \<Rightarrow> ingress" where
  "getServiceIngress c key =
     (case serviceTracker c key of
        None \<Rightarrow> \<lparr>hostname = '''', service = ''''\<rparr>
      | Some i \<Rightarrow> i)"

definition deleteService :: "string \<Rightarrow> controller \<Rightarrow> controller" where
  "deleteService key c = c\<lparr>serviceTracker := (serviceTracker c)(key := None)\<rparr>"

section \<open>Reconciliation of one key\<close>

text \<open>\<^verbatim>\<open>c.client.CoreV1().Services(namespace).UpdateStatus(ctx, service, opts)\<close>:
  the call is recorded and answered by the API server.\<close>

definition UpdateStatus ::
  "string \<Rightarrow> Service \<Rightarrow> controller \<Rightarrow> error option \<times> controller" where
  "UpdateStatus namespace svc c =
     (updateStatusErr c namespace svc,
      c\<lparr>updateCalls := updateCalls c @ [(namespace, svc)]\<rparr>)"

text \<open>An assignment through the pointer the lister returned: the cached object changes.\<close>

definition storeCached :: "string \<Rightarrow> string \<Rightarrow> Service \<Rightarrow> controller \<Rightarrow> controller" where
  "storeCached namespace name svc c =
     c\<lparr>services := (services c)((namespace, name) := Inr svc)\<rparr>"

text \<open>
  \<^verbatim>\<open>net.JoinHostPort(service.Spec.ClusterIP, strconv.Itoa(int(service.Spec.Ports[0].Port)))\<close>:
  indexing an empty \<^verbatim>\<open>Ports\<close> slice panics, so the address is optional. The port is an
  \<^verbatim>\<open>int32\<close>, read as a signed number.
\<close>

definition serviceAddress :: "Service \<Rightarrow> string option" where
  "serviceAddress svc =
     (case Ports (Spec svc) of
        [] \<Rightarrow> None
      | p # _ \<Rightarrow> Some (JoinHostPort (ClusterIP (Spec svc)) (Itoa (sint (Port p)))))"

text \<open>
  Lines 169 to 184 of \<^verbatim>\<open>syncServices\<close>, the block entered when the service is gone
  (\<open>found = None\<close>, the lister's error was "not found") or is not of type LoadBalancer
  (\<open>found = Some svc\<close>).
\<close>

definition releaseService ::
  "string \<Rightarrow> string \<Rightarrow> string \<Rightarrow> Service option \<Rightarrow> controller
     \<Rightarrow> error option outcome \<times> controller" where
  "releaseService key namespace name found c =
     (let i = getServiceIngress c key in
      if hostname i = '''' \<or> service i = '''' then (Returned None, c)
      else
        (case found of
           None \<Rightarrow> (Returned None, deleteService key c)
         | Some svc \<Rightarrow>
             (let svc' = svc\<lparr>Status := (Status svc)\<lparr>LoadBalancer := \<lparr>Ingress = []\<rparr>\<rparr>\<rparr>;
                  (errUpdate, c') = UpdateStatus namespace svc' (storeCached namespace name svc' c)
              in case errUpdate of
                   Some e \<Rightarrow> (Returned (Some e), c')
                 | None \<Rightarrow> (Returned None, deleteService key c'))))"

text \<open>
  Lines 186 to 213: the service is of type LoadBalancer. The loop over the status
  ingresses returns in its first iteration, so only the first entry is looked at. The
  hostname is \<^verbatim>\<open>service.Name + "-" + service.Namespace\<close>; the test of
  \<^verbatim>\<open>c.config.Domain\<close> has an empty body. The arguments of \<^verbatim>\<open>addService\<close> are evaluated
  before the call, so a panic on \<^verbatim>\<open>Ports[0]\<close> leaves the tracker as it was.
\<close>

definition assignService ::
  "string \<Rightarrow> string \<Rightarrow> string \<Rightarrow> Service \<Rightarrow> controller
     \<Rightarrow> error option outcome \<times> controller" where
  "assignService key namespace name svc c =
     (case Ingress (LoadBalancer (Status svc)) of
        i # _ \<Rightarrow>
          (case serviceAddress svc of
             None \<Rightarrow> (Panicked, c)
           | Some addr \<Rightarrow>
               (Returned None, addService key \<lparr>hostname = Hostname i, service = addr\<rparr> c))
      | [] \<Rightarrow>
          (let lbHostname = Name svc @ ''-'' @ Namespace svc;
               c0 = (if 0 < length (Domain (config c)) then c else c);
               svc' = svc\<lparr>Status := (Status svc)\<lparr>LoadBalancer :=
                        \<lparr>Ingress = [\<lparr>IP = '''', Hostname = lbHostname\<rparr>]\<rparr>\<rparr>\<rparr>;
               (err, c') = UpdateStatus namespace svc' (storeCached namespace name svc' c0)
           in case err of
                Some e \<Rightarrow> (Returned (Some e), c')
              | None \<Rightarrow>
                  (case serviceAddress svc' of
                     None \<Rightarrow> (Panicked, c')
                   | Some addr \<Rightarrow>
                       (Returned None,
                        addService key \<lparr>hostname = lbHostname, service = addr\<rparr> c'))))"

text \<open>
  \<^verbatim>\<open>func (c *Controller) syncServices(key string) error\<close>. The log lines are left out.
\<close>

definition syncServices :: "string \<Rightarrow> controller \<Rightarrow> error option outcome \<times> controller" where
  "syncServices key c =
     (case SplitMetaNamespaceKey key of
        Inl err \<Rightarrow> (Returned (Some err), c)
      | Inr (namespace, name) \<Rightarrow>
          (case services c (namespace, name) of
             Inl err \<Rightarrow>
               (if IsNotFound err then releaseService key namespace name None c
                else (Returned (Some err), c))
           | Inr svc \<Rightarrow>
               (if Type (Spec svc) = ServiceTypeLoadBalancer
                then assignService key namespace name svc c
                else releaseService key namespace name (Some svc) c)))"

section \<open>The worker\<close>

text \<open>What \<^verbatim>\<open>handleErr\<close> writes to the log or hands to \<^verbatim>\<open>utilruntime.HandleError\<close>.
  The retry line is written at verbosity 2 and above.\<close>

datatype logEntry =
    FailedToSplitKey string error
  | RetryingService string string error
  | DroppingService string error
  | HandledError error

text \<open>
  \<^verbatim>\<open>func (c *Controller) handleErr(err error, key interface{})\<close>, returning the log
  entries of the call. A key that does not split is logged, with empty namespace and
  name in the entries that follow, and the function goes on.
\<close>

definition handleErr ::
  "error option \<Rightarrow> string \<Rightarrow> controller \<Rightarrow> logEntry list \<times> controller" where
  "handleErr err key c =
     (case err of
        None \<Rightarrow> ([], c\<lparr>queue := Forget key (queue c)\<rparr>)
      | Some e \<Rightarrow>
          (let (ns, name, keyLog) =
                 (case SplitMetaNamespaceKey key of
                    Inl keyErr \<Rightarrow> ('''', '''', [FailedToSplitKey key e])
                  | Inr (ns, name) \<Rightarrow> (ns, name, []))
           in if NumRequeues (queue c) key < maxRetries
              then (keyLog @ [RetryingService ns name e],
                    c\<lparr>queue := AddRateLimited key (queue c)\<rparr>)
              else (keyLog @ [DroppingService key e, HandledError e],
                    c\<lparr>queue := Forget key (queue c)\<rparr>)))"

text \<open>
  \<^verbatim>\<open>processNextWorkItem\<close>, given what \<^verbatim>\<open>c.queue.Get()\<close> returned (the call blocks until then).
  A panic of \<^verbatim>\<open>syncServices\<close> unwinds through the function, so \<^verbatim>\<open>handleErr\<close> is not
  reached. The deferred \<^verbatim>\<open>c.queue.Done(eKey)\<close> only lets the queue hand the key out again and
  has no counterpart here.
\<close>

definition processNextWorkItem ::
  "string \<times> bool \<Rightarrow> controller \<Rightarrow> bool outcome \<times> logEntry list \<times> controller" where
  "processNextWorkItem got c =
     (case got of
        (eKey, quit) \<Rightarrow>
          if quit then (Returned False, [], c)
          else
            (case syncServices eKey c of
               (Panicked, c') \<Rightarrow> (Panicked, [], c')
             | (Returned err, c') \<Rightarrow>
                 (let (ls, c'') = handleErr err eKey c' in (Returned True, ls, c''))))"

section \<open>The configuration file of the tunnel daemon\<close>

text \<open>
  \<^verbatim>\<open>cloudflared.Configuration\<close>: the daemon's configuration (tunnel identity and ingress
  rules, the part that is encoded) and the path of the file. The fields of the embedded
  library struct carry a prefix, since \<^verbatim>\<open>TunnelID\<close>, \<^verbatim>\<open>Ingress\<close>, \<^verbatim>\<open>Hostname\<close> and \<^verbatim>\<open>Service\<close>
  name other things above.
\<close>

record UnvalidatedIngressRule =
  ruleHostname :: string
  ruleService :: string

record Configuration =
  cfgTunnelID :: string
  cfgIngress :: "UnvalidatedIngressRule list"
  path :: string

definition defaultFilename :: string where
  "defaultFilename = ''config.yaml''"

definition AddIngress :: "string \<Rightarrow> string \<Rightarrow> Configuration \<Rightarrow> Configuration" where
  "AddIngress h s c = c\<lparr>cfgIngress := cfgIngress c @ [\<lparr>ruleHostname = h, ruleService = s\<rparr>]\<rparr>"

definition NewFromConfig :: "Config \<Rightarrow> Configuration" where
  "NewFromConfig cfg = \<lparr>cfgTunnelID = TunnelID cfg, cfgIngress = [], path = defaultFilename\<rparr>"

text \<open>
  The file system as \<^verbatim>\<open>Write\<close> sees it: directory entries name inodes, inodes hold bytes.
  \<open>failing\<close> tells which of the calls \<^verbatim>\<open>Write\<close> makes fails with an error at this time.
  \<open>nextInode\<close> numbers the next file created; it also stands for the random suffix
  \<^verbatim>\<open>ioutil.TempFile\<close> appends to the name of the file it creates in the temporary directory.
\<close>

datatype fileCall = CallMkdirAll | CallTempFile | CallEncode | CallRename

datatype fileError = MissingFileName | CallFailed fileCall

record filesystem =
  entries :: "string \<rightharpoonup> nat"
  contents :: "nat \<Rightarrow> string"
  directories :: "string set"
  nextInode :: nat
  failing :: "fileCall \<Rightarrow> bool"

text \<open>\<^verbatim>\<open>filepath.Dir\<close> on a path without doubled separators or dot elements: all but the
  last element, "." when there is no separator.\<close>

definition Dir :: "string \<Rightarrow> string" where
  "Dir p =
     (let d = rev (dropWhile (\<lambda>ch. ch \<noteq> CHR ''/'') (rev p))
      in if d = [] then ''.'' else if d = ''/'' then ''/'' else butlast d)"

text \<open>\<^verbatim>\<open>os.Stat\<close> gives the file's identity or fails; \<^verbatim>\<open>os.SameFile\<close> compares identities
  (device and inode), not bytes.\<close>

definition Stat :: "filesystem \<Rightarrow> string \<Rightarrow> nat option" where
  "Stat fs p = entries fs p"

definition sameFile :: "filesystem \<Rightarrow> string \<Rightarrow> string \<Rightarrow> bool" where
  "sameFile fs path1 path2 =
     (case Stat fs path1 of
        None \<Rightarrow> False
      | Some ia1 \<Rightarrow>
          (case Stat fs path2 of
             None \<Rightarrow> False
           | Some ia2 \<Rightarrow> ia1 = ia2))"

definition tempName :: "filesystem \<Rightarrow> string" where
  "tempName fs = ''/tmp/klb'' @ utoa (nextInode fs)"

definition TempFile :: "filesystem \<Rightarrow> filesystem" where
  "TempFile fs =
     fs\<lparr>entries := (entries fs)(tempName fs \<mapsto> nextInode fs),
        contents := (contents fs)(nextInode fs := ''''),
        nextInode := nextInode fs + 1\<rparr>"

definition Rename :: "string \<Rightarrow> string \<Rightarrow> filesystem \<Rightarrow> filesystem" where
  "Rename old new fs =
     (case entries fs old of
        None \<Rightarrow> fs
      | Some ino \<Rightarrow> fs\<lparr>entries := ((entries fs)(old := None))(new \<mapsto> ino)\<rparr>)"

definition Remove :: "string \<Rightarrow> filesystem \<Rightarrow> filesystem" where
  "Remove p fs = fs\<lparr>entries := (entries fs)(p := None)\<rparr>"

text \<open>
  \<^verbatim>\<open>os.MkdirAll\<close> creates the directory together with every missing ancestor: the prefixes
  of the path that end before a separator, and the path itself.
\<close>

definition ancestorsOf :: "string \<Rightarrow> string list" where
  "ancestorsOf d = [take n d. n \<leftarrow> [1..<length d], d ! n = CHR ''/'']"

definition MkdirAll :: "string \<Rightarrow> filesystem \<Rightarrow> filesystem" where
  "MkdirAll d fs = fs\<lparr>directories := directories fs \<union> set (ancestorsOf d) \<union> {d}\<rparr>"

text \<open>
  \<^verbatim>\<open>func (c *Configuration) Write() error\<close>, with the YAML encoder as a parameter. The
  deferred \<^verbatim>\<open>os.Remove(tempname)\<close> runs on every return after the temporary file exists.
\<close>

definition Write ::
  "(Configuration \<Rightarrow> string) \<Rightarrow> Configuration \<Rightarrow> filesystem
     \<Rightarrow> fileError option \<times> filesystem" where
  "Write yaml c fs =
     (if path c = '''' then (Some MissingFileName, fs)
      else if failing fs CallMkdirAll then (Some (CallFailed CallMkdirAll), fs)
      else
        (let fs1 = MkdirAll (Dir (path c)) fs in
         if failing fs CallTempFile then (Some (CallFailed CallTempFile), fs1)
         else
           (let tempname = tempName fs1;
                fs2 = TempFile fs1
            in if failing fs CallEncode
               then (Some (CallFailed CallEncode), Remove tempname fs2)
               else
                 (let fs3 = fs2\<lparr>contents := (contents fs2)(nextInode fs1 := yaml c)\<rparr> in
                  if sameFile fs3 tempname (path c) then (None, Remove tempname fs3)
                  else if failing fs CallRename
                  then (Some (CallFailed CallRename), Remove tempname fs3)
                  else (None, Remove tempname (Rename tempname (path c) fs3))))))"

section \<open>Example objects\<close>

text \<open>\<^verbatim>\<open>NewController\<close>: an empty tracker and a fresh queue.\<close>

definition NewController ::
  "Config \<Rightarrow> (string \<Rightarrow> Service \<Rightarrow> error option)
     \<Rightarrow> (string \<times> string \<Rightarrow> error + Service) \<Rightarrow> controller" where
  "NewController cfg client lister =
     \<lparr>config = cfg,
      queue = \<lparr>failures = (\<lambda>key. 0), waiting = []\<rparr>,
      serviceTracker = Map.empty,
      services = lister,
      updateStatusErr = client,
      updateCalls = []\<rparr>"

text \<open>The service of the spec's scenarios: "web" in "default", at 10.0.0.5:80.\<close>

definition webService :: Service where
  "webService =
     \<lparr>Name = ''web'', Namespace = ''default'',
      Spec = \<lparr>Type = ''LoadBalancer'', ClusterIP = ''10.0.0.5'', Ports = [\<lparr>Port = 80\<rparr>]\<rparr>,
      Status = \<lparr>LoadBalancer = \<lparr>Ingress = []\<rparr>\<rparr>\<rparr>"

definition withIngress :: "LoadBalancerIngress list \<Rightarrow> Service \<Rightarrow> Service" where
  "withIngress ings svc =
     svc\<lparr>Status := (Status svc)\<lparr>LoadBalancer := \<lparr>Ingress = ings\<rparr>\<rparr>\<rparr>"

definition withType :: "string \<Rightarrow> Service \<Rightarrow> Service" where
  "withType t svc = svc\<lparr>Spec := (Spec svc)\<lparr>Type := t\<rparr>\<rparr>"

definition withPorts :: "ServicePort list \<Rightarrow> Service \<Rightarrow> Service" where
  "withPorts ps svc = svc\<lparr>Spec := (Spec svc)\<lparr>Ports := ps\<rparr>\<rparr>"

text \<open>A cache holding one service, and one holding none.\<close>

definition cacheOf :: "Service \<Rightarrow> string \<times> string \<Rightarrow> error + Service" where
  "cacheOf svc k = (if k = (Namespace svc, Name svc) then Inr svc else Inl StatusNotFound)"

definition emptyCache :: "string \<times> string \<Rightarrow> error + Service" where
  "emptyCache k = Inl StatusNotFound"

text \<open>An API server that accepts every status write, and one that refuses them all.\<close>

definition apiOk :: "string \<Rightarrow> Service \<Rightarrow> error option" where
  "apiOk namespace svc = None"

definition apiDown :: "string \<Rightarrow> Service \<Rightarrow> error option" where
  "apiDown namespace svc = Some (StatusFailure ''unavailable'')"

definition noConfig :: Config where
  "noConfig = \<lparr>Domain = '''', TunnelID = '''', CredentialsFile = ''''\<rparr>"

text \<open>The controller after a restart: the cached service already shows the hostname
  "web-default" in its status, and the API server refuses writes.\<close>

definition restartedController :: controller where
  "restartedController =
     NewController noConfig apiDown
       (cacheOf (withIngress [\<lparr>IP = '''', Hostname = ''web-default''\<rparr>] webService))"

text \<open>Controllers at start-up with the service "web" in the cache: one whose API server
  accepts status writes, one whose API server refuses them, and one whose service declares
  no port.\<close>

definition freshController :: controller where
  "freshController = NewController noConfig apiOk (cacheOf webService)"

definition failingController :: controller where
  "failingController = NewController noConfig apiDown (cacheOf webService)"

definition portlessController :: controller where
  "portlessController = NewController noConfig apiDown (cacheOf (withPorts [] webService))"

definition portlessAcceptedController :: controller where
  "portlessAcceptedController = NewController noConfig apiOk (cacheOf (withPorts [] webService))"

text \<open>
  A service whose status was filled by another load balancer with an address and no
  hostname; the controller that has reconciled it once; and that controller after the
  service changed to type ClusterIP, or was deleted.
\<close>

definition ipOnlyService :: Service where
  "ipOnlyService = withIngress [\<lparr>IP = ''192.0.2.10'', Hostname = ''''\<rparr>] webService"

definition ipOnlyController :: controller where
  "ipOnlyController = NewController noConfig apiOk (cacheOf ipOnlyService)"

definition adoptedIpOnlyController :: controller where
  "adoptedIpOnlyController = snd (syncServices ''default/web'' ipOnlyController)"

definition retypedController :: controller where
  "retypedController =
     adoptedIpOnlyController\<lparr>services := cacheOf (withType ''ClusterIP'' ipOnlyService)\<rparr>"

definition deletedController :: controller where
  "deletedController = adoptedIpOnlyController\<lparr>services := emptyCache\<rparr>"

text \<open>The controller that assigned "web-default" to the service, after the service changed
  to type ClusterIP.\<close>

definition trackedController :: controller where
  "trackedController =
     (snd (syncServices ''default/web'' freshController))
       \<lparr>services := cacheOf (withType ''ClusterIP''
           (withIngress [\<lparr>IP = '''', Hostname = ''web-default''\<rparr>] webService))\<rparr>"

text \<open>A key whose reconciliation fails \<open>n\<close> times in a row, each failure handled by
  \<^verbatim>\<open>handleErr\<close>; and the controller after twelve such failures of "default/web".\<close>

fun failRepeatedly :: "nat \<Rightarrow> error \<Rightarrow> string \<Rightarrow> controller \<Rightarrow> controller" where
  "failRepeatedly 0 e key c = c"
| "failRepeatedly (Suc n) e key c = snd (handleErr (Some e) key (failRepeatedly n e key c))"

definition exhaustedController :: controller where
  "exhaustedController =
     failRepeatedly 12 (StatusFailure ''unavailable'') ''default/web'' failingController"

text \<open>A stand-in for the YAML encoder, and a disk on which "config.yaml" already holds
  exactly what the encoder produces for the configuration of a fresh controller.\<close>

definition yamlOf :: "Configuration \<Rightarrow> string" where
  "yamlOf c = ''tunnel: '' @ cfgTunnelID c @
     concat (map (\<lambda>r. '' '' @ ruleHostname r @ ''='' @ ruleService r) (cfgIngress c))"

definition upToDateDisk :: filesystem where
  "upToDateDisk =
     \<lparr>entries = [''config.yaml'' \<mapsto> 1],
      contents = (\<lambda>ino. if ino = 1 then yamlOf (NewFromConfig noConfig) else ''''),
      directories = {''.''},
      nextInode = 2,
      failing = (\<lambda>call. False)\<rparr>"

section \<open>Eligibility\<close>

text \<open>
  The spec's words for a key: its resource qualifies when the key names a cached service
  of type LoadBalancer; the hostname assigned to it is the one of the first ingress in its
  status.
\<close>

definition eligible :: "controller \<Rightarrow> string \<Rightarrow> bool" where
  "eligible c key =
     (case SplitMetaNamespaceKey key of
        Inl err \<Rightarrow> False
      | Inr (namespace, name) \<Rightarrow>
          (case services c (namespace, name) of
             Inl err \<Rightarrow> False
           | Inr svc \<Rightarrow> Type (Spec svc) = ServiceTypeLoadBalancer))"

definition statusHostname :: "controller \<Rightarrow> string \<Rightarrow> string option" where
  "statusHostname c key =
     (case SplitMetaNamespaceKey key of
        Inl err \<Rightarrow> None
      | Inr (namespace, name) \<Rightarrow>
          (case services c (namespace, name) of
             Inl err \<Rightarrow> None
           | Inr svc \<Rightarrow>
               (case Ingress (LoadBalancer (Status svc)) of
                  [] \<Rightarrow> None
                | i # rest \<Rightarrow> Some (Hostname i))))"

section \<open>Properties of the reconciler\<close>

lemmas example_defs = NewController_def webService_def withIngress_def withType_def
  withPorts_def cacheOf_def emptyCache_def apiOk_def apiDown_def noConfig_def

lemmas library_defs = SplitMetaNamespaceKey_def ServiceTypeLoadBalancer_def JoinHostPort_def
  Itoa_def utoa.simps

lemmas sync_defs = syncServices_def assignService_def releaseService_def UpdateStatus_def
  storeCached_def serviceAddress_def addService_def deleteService_def getServiceIngress_def Let_def

text \<open>The branches of \<^verbatim>\<open>syncServices\<close> for a service of type LoadBalancer.\<close>

lemma sync_LoadBalancer:
  assumes "SplitMetaNamespaceKey key = Inr (namespace, name)"
    and "services c (namespace, name) = Inr svc"
    and "Type (Spec svc) = ServiceTypeLoadBalancer"
  shows "syncServices key c = assignService key namespace name svc c"
  using assms by (simp add: syncServices_def)

lemma assign_fresh_failure:
  assumes "Ingress (LoadBalancer (Status svc)) = []"
    and "updateStatusErr c namespace
           (withIngress [\<lparr>IP = '''', Hostname = Name svc @ ''-'' @ Namespace svc\<rparr>] svc) = Some e"
  shows "assignService key namespace name svc c =
           (Returned (Some e),
            c\<lparr>services := (services c)((namespace, name) := Inr
                  (withIngress [\<lparr>IP = '''', Hostname = Name svc @ ''-'' @ Namespace svc\<rparr>] svc)),
              updateCalls := updateCalls c @ [(namespace,
                  (withIngress [\<lparr>IP = '''', Hostname = Name svc @ ''-'' @ Namespace svc\<rparr>] svc))]\<rparr>)"
  using assms
  by (simp add: withIngress_def assignService_def UpdateStatus_def storeCached_def Let_def)

lemma assign_fresh_success:
  assumes "Ingress (LoadBalancer (Status svc)) = []"
    and "updateStatusErr c namespace
           (withIngress [\<lparr>IP = '''', Hostname = Name svc @ ''-'' @ Namespace svc\<rparr>] svc) = None"
    and "Ports (Spec svc) = p # ps"
  shows "assignService key namespace name svc c =
           (Returned None,
            c\<lparr>services := (services c)((namespace, name) := Inr
                  (withIngress [\<lparr>IP = '''', Hostname = Name svc @ ''-'' @ Namespace svc\<rparr>] svc)),
              updateCalls := updateCalls c @ [(namespace,
                  (withIngress [\<lparr>IP = '''', Hostname = Name svc @ ''-'' @ Namespace svc\<rparr>] svc))],
              serviceTracker := (serviceTracker c)(key \<mapsto>
                 \<lparr>hostname = Name svc @ ''-'' @ Namespace svc,
                  service = JoinHostPort (ClusterIP (Spec svc)) (Itoa (sint (Port p)))\<rparr>)\<rparr>)"
  using assms
  by (simp add: withIngress_def assignService_def UpdateStatus_def storeCached_def serviceAddress_def
      addService_def Let_def)

lemma assign_fresh_panic:
  assumes "Ingress (LoadBalancer (Status svc)) = []"
    and "updateStatusErr c namespace
           (withIngress [\<lparr>IP = '''', Hostname = Name svc @ ''-'' @ Namespace svc\<rparr>] svc) = None"
    and "Ports (Spec svc) = []"
  shows "assignService key namespace name svc c =
           (Panicked,
            c\<lparr>services := (services c)((namespace, name) := Inr
                  (withIngress [\<lparr>IP = '''', Hostname = Name svc @ ''-'' @ Namespace svc\<rparr>] svc)),
              updateCalls := updateCalls c @ [(namespace,
                  (withIngress [\<lparr>IP = '''', Hostname = Name svc @ ''-'' @ Namespace svc\<rparr>] svc))]\<rparr>)"
  using assms
  by (simp add: withIngress_def assignService_def UpdateStatus_def storeCached_def serviceAddress_def
      addService_def Let_def)

lemma assign_adopt:
  assumes "Ingress (LoadBalancer (Status svc)) = i # rest"
    and "Ports (Spec svc) = p # ps"
  shows "assignService key namespace name svc c =
           (Returned None,
            c\<lparr>serviceTracker := (serviceTracker c)(key \<mapsto>
                 \<lparr>hostname = Hostname i,
                  service = JoinHostPort (ClusterIP (Spec svc)) (Itoa (sint (Port p)))\<rparr>)\<rparr>)"
  using assms by (simp add: assignService_def serviceAddress_def addService_def)

lemma assign_adopt_panic:
  assumes "Ingress (LoadBalancer (Status svc)) = i # rest"
    and "Ports (Spec svc) = []"
  shows "assignService key namespace name svc c = (Panicked, c)"
  using assms by (simp add: assignService_def serviceAddress_def)

text \<open>The branches for a service that is gone or of another type.\<close>

lemma sync_not_found:
  assumes "SplitMetaNamespaceKey key = Inr (namespace, name)"
    and "services c (namespace, name) = Inl err"
    and "IsNotFound err"
  shows "syncServices key c = releaseService key namespace name None c"
  using assms by (simp add: syncServices_def)

lemma sync_other_type:
  assumes "SplitMetaNamespaceKey key = Inr (namespace, name)"
    and "services c (namespace, name) = Inr svc"
    and "Type (Spec svc) \<noteq> ServiceTypeLoadBalancer"
  shows "syncServices key c = releaseService key namespace name (Some svc) c"
  using assms by (simp add: syncServices_def)

lemma release_untracked:
  assumes "hostname (getServiceIngress c key) = '''' \<or> service (getServiceIngress c key) = ''''"
  shows "releaseService key namespace name found c = (Returned None, c)"
  using assms by (auto simp add: releaseService_def Let_def)

lemma release_deleted:
  assumes "hostname (getServiceIngress c key) \<noteq> ''''"
    and "service (getServiceIngress c key) \<noteq> ''''"
  shows "releaseService key namespace name None c =
           (Returned None, c\<lparr>serviceTracker := (serviceTracker c)(key := None)\<rparr>)"
  using assms by (simp add: releaseService_def deleteService_def Let_def)

lemma release_retyped_failure:
  assumes "hostname (getServiceIngress c key) \<noteq> ''''"
    and "service (getServiceIngress c key) \<noteq> ''''"
    and "updateStatusErr c namespace (withIngress [] svc) = Some e"
  shows "releaseService key namespace name (Some svc) c =
           (Returned (Some e),
            c\<lparr>services := (services c)((namespace, name) := Inr (withIngress [] svc)),
              updateCalls := updateCalls c @ [(namespace, withIngress [] svc)]\<rparr>)"
  using assms
  by (simp add: releaseService_def withIngress_def UpdateStatus_def storeCached_def
      getServiceIngress_def Let_def)

lemma release_retyped_success:
  assumes "hostname (getServiceIngress c key) \<noteq> ''''"
    and "service (getServiceIngress c key) \<noteq> ''''"
    and "updateStatusErr c namespace (withIngress [] svc) = None"
  shows "releaseService key namespace name (Some svc) c =
           (Returned None,
            c\<lparr>services := (services c)((namespace, name) := Inr (withIngress [] svc)),
              updateCalls := updateCalls c @ [(namespace, withIngress [] svc)],
              serviceTracker := (serviceTracker c)(key := None)\<rparr>)"
  using assms
  by (simp add: releaseService_def withIngress_def UpdateStatus_def storeCached_def
      getServiceIngress_def deleteService_def Let_def)

text \<open>Every way in which \<^verbatim>\<open>syncServices\<close> returns nil, with the state it leaves.\<close>

lemma sync_success_cases:
  assumes "syncServices key c = (Returned None, c')"
  obtains
    (adopted) namespace name svc i rest p ps where
      "SplitMetaNamespaceKey key = Inr (namespace, name)"
      "services c (namespace, name) = Inr svc"
      "Type (Spec svc) = ServiceTypeLoadBalancer"
      "Ingress (LoadBalancer (Status svc)) = i # rest"
      "Ports (Spec svc) = p # ps"
      "c' = c\<lparr>serviceTracker := (serviceTracker c)(key \<mapsto>
                 \<lparr>hostname = Hostname i,
                  service = JoinHostPort (ClusterIP (Spec svc)) (Itoa (sint (Port p)))\<rparr>)\<rparr>"
  | (assigned) namespace name svc p ps where
      "SplitMetaNamespaceKey key = Inr (namespace, name)"
      "services c (namespace, name) = Inr svc"
      "Type (Spec svc) = ServiceTypeLoadBalancer"
      "Ingress (LoadBalancer (Status svc)) = []"
      "Ports (Spec svc) = p # ps"
      "c' = c\<lparr>services := (services c)((namespace, name) := Inr
                  (withIngress [\<lparr>IP = '''', Hostname = Name svc @ ''-'' @ Namespace svc\<rparr>] svc)),
              updateCalls := updateCalls c @ [(namespace,
                  (withIngress [\<lparr>IP = '''', Hostname = Name svc @ ''-'' @ Namespace svc\<rparr>] svc))],
              serviceTracker := (serviceTracker c)(key \<mapsto>
                 \<lparr>hostname = Name svc @ ''-'' @ Namespace svc,
                  service = JoinHostPort (ClusterIP (Spec svc)) (Itoa (sint (Port p)))\<rparr>)\<rparr>"
  | (untracked) "\<not> eligible c key"
      "hostname (getServiceIngress c key) = '''' \<or> service (getServiceIngress c key) = ''''"
      "c' = c"
  | (deleted) namespace name where
      "SplitMetaNamespaceKey key = Inr (namespace, name)"
      "\<not> eligible c key"
      "hostname (getServiceIngress c key) \<noteq> ''''" "service (getServiceIngress c key) \<noteq> ''''"
      "c' = c\<lparr>serviceTracker := (serviceTracker c)(key := None)\<rparr>"
  | (retyped) namespace name svc where
      "SplitMetaNamespaceKey key = Inr (namespace, name)"
      "services c (namespace, name) = Inr svc"
      "Type (Spec svc) \<noteq> ServiceTypeLoadBalancer"
      "hostname (getServiceIngress c key) \<noteq> ''''" "service (getServiceIngress c key) \<noteq> ''''"
      "c' = c\<lparr>services := (services c)((namespace, name) := Inr (withIngress [] svc)),
              updateCalls := updateCalls c @ [(namespace, withIngress [] svc)],
              serviceTracker := (serviceTracker c)(key := None)\<rparr>"
proof (cases "SplitMetaNamespaceKey key")
  case (Inl err)
  with assms show ?thesis by (simp add: syncServices_def)
next
  case (Inr nn)
  obtain namespace name where nn: "nn = (namespace, name)" by (cases nn)
  note split = Inr [unfolded nn]
  show ?thesis
  proof (cases "services c (namespace, name)")
    case (Inl err)
    then have ne: "\<not> eligible c key" by (simp add: eligible_def split)
    show ?thesis
    proof (cases "IsNotFound err")
      case False
      with assms split Inl show ?thesis by (simp add: syncServices_def)
    next
      case True
      note run = sync_not_found [OF split Inl True]
      show ?thesis
      proof (cases "hostname (getServiceIngress c key) = '''' \<or> service (getServiceIngress c key) = ''''")
        case True
        with assms run release_untracked [OF True] have "c' = c" by simp
        with ne True show ?thesis by (rule untracked)
      next
        case False
        then have t: "hostname (getServiceIngress c key) \<noteq> ''''" "service (getServiceIngress c key) \<noteq> ''''"
          by simp_all
        from assms run release_deleted [OF t]
        have "c' = c\<lparr>serviceTracker := (serviceTracker c)(key := None)\<rparr>" by simp
        with split ne t show ?thesis by (rule deleted)
      qed
    qed
  next
    case (Inr svc)
    show ?thesis
    proof (cases "Type (Spec svc) = ServiceTypeLoadBalancer")
      case True
      from assms have run: "assignService key namespace name svc c = (Returned None, c')"
        by (simp add: sync_LoadBalancer [OF split Inr True])
      show ?thesis
      proof (cases "Ingress (LoadBalancer (Status svc))")
        case (Cons i rest)
        show ?thesis
        proof (cases "Ports (Spec svc)")
          case Nil
          from assign_adopt_panic [OF Cons Nil] run show ?thesis by simp
        next
          case ps: (Cons p ps)
          from assign_adopt [OF Cons ps] run
          have "c' = c\<lparr>serviceTracker := (serviceTracker c)(key \<mapsto>
                 \<lparr>hostname = Hostname i,
                  service = JoinHostPort (ClusterIP (Spec svc)) (Itoa (sint (Port p)))\<rparr>)\<rparr>"
            by simp
          with split Inr True Cons ps show ?thesis by (rule adopted)
        qed
      next
        case Nil
        let ?svc' = "withIngress [\<lparr>IP = '''', Hostname = Name svc @ ''-'' @ Namespace svc\<rparr>] svc"
        show ?thesis
        proof (cases "updateStatusErr c namespace ?svc'")
          case (Some e)
          from assign_fresh_failure [OF Nil Some] run show ?thesis by simp
        next
          case None
          show ?thesis
          proof (cases "Ports (Spec svc)")
            case ps: Nil
            from assign_fresh_panic [OF Nil None ps] run show ?thesis by simp
          next
            case ps: (Cons p ps)
            from assign_fresh_success [OF Nil None ps] run
            have "c' = c\<lparr>services := (services c)((namespace, name) := Inr ?svc'),
              updateCalls := updateCalls c @ [(namespace, ?svc')],
              serviceTracker := (serviceTracker c)(key \<mapsto>
                 \<lparr>hostname = Name svc @ ''-'' @ Namespace svc,
                  service = JoinHostPort (ClusterIP (Spec svc)) (Itoa (sint (Port p)))\<rparr>)\<rparr>"
              by simp
            with split Inr True Nil ps show ?thesis by (rule assigned)
          qed
        qed
      qed
    next
      case False
      then have ne: "\<not> eligible c key" by (simp add: eligible_def split Inr)
      note run = sync_other_type [OF split Inr False]
      show ?thesis
      proof (cases "hostname (getServiceIngress c key) = '''' \<or> service (getServiceIngress c key) = ''''")
        case True
        with assms run release_untracked [OF True] have "c' = c" by simp
        with ne True show ?thesis by (rule untracked)
      next
        case nt: False
        then have t: "hostname (getServiceIngress c key) \<noteq> ''''" "service (getServiceIngress c key) \<noteq> ''''"
          by simp_all
        let ?cl = "withIngress [] svc"
        show ?thesis
        proof (cases "updateStatusErr c namespace ?cl")
          case (Some e)
          from release_retyped_failure [OF t Some] run assms show ?thesis by simp
        next
          case None
          from release_retyped_success [OF t None] run assms
          have "c' = c\<lparr>services := (services c)((namespace, name) := Inr ?cl),
              updateCalls := updateCalls c @ [(namespace, ?cl)],
              serviceTracker := (serviceTracker c)(key := None)\<rparr>"
            by simp
          with split Inr False t show ?thesis by (rule retyped)
        qed
      qed
    qed
  qed
qed

text \<open>
  C3, adoption: when the key names a cached service of type LoadBalancer whose status lists
  an ingress, and the service declares a port, \<^verbatim>\<open>syncServices\<close> returns nil and changes
  nothing but the tracker entry of the key, which becomes the hostname of the first status
  ingress paired with cluster address and first port. In particular no status write is
  issued.
\<close>

theorem adoption_path:
  assumes "SplitMetaNamespaceKey key = Inr (namespace, name)"
    and "services c (namespace, name) = Inr svc"
    and "Type (Spec svc) = ServiceTypeLoadBalancer"
    and "Ingress (LoadBalancer (Status svc)) = i # rest"
    and "Ports (Spec svc) = p # ps"
  shows "syncServices key c =
           (Returned None,
            c\<lparr>serviceTracker := (serviceTracker c)(key \<mapsto>
                 \<lparr>hostname = Hostname i,
                  service = JoinHostPort (ClusterIP (Spec svc)) (Itoa (sint (Port p)))\<rparr>)\<rparr>)"
  using assms
  by (simp add: syncServices_def assignService_def serviceAddress_def addService_def)

theorem adoption_path_witness:
  "fst (syncServices ''default/web'' restartedController) = Returned None
   \<and> serviceTracker (snd (syncServices ''default/web'' restartedController)) ''default/web''
       = Some \<lparr>hostname = ''web-default'', service = ''10.0.0.5:80''\<rparr>
   \<and> updateCalls (snd (syncServices ''default/web'' restartedController)) = []"
  using adoption_path [of "''default/web''" "''default''" "''web''" restartedController
      "withIngress [\<lparr>IP = '''', Hostname = ''web-default''\<rparr>] webService"
      "\<lparr>IP = '''', Hostname = ''web-default''\<rparr>" "[]" "\<lparr>Port = 80\<rparr>" "[]"]
  by (simp add: restartedController_def example_defs library_defs)

text \<open>
  C5, assignment: for a cached LoadBalancer service whose status lists no ingress,
  \<^verbatim>\<open>syncServices\<close> issues exactly one status write, carrying the computed hostname, before
  it touches the tracker. If the API server answers with an error, that error is returned
  and the tracker is what it was; if the write succeeds and the service declares a port, nil
  is returned and the tracker entry of the key is set to the hostname and the address of the
  first port. A status that lists an ingress without a hostname is not in this case: such a
  service has no hostname assigned, yet no write is issued for it and an entry is stored.
\<close>

theorem assignment_atomicity:
  assumes "SplitMetaNamespaceKey key = Inr (namespace, name)"
    and "services c (namespace, name) = Inr svc"
    and "Type (Spec svc) = ServiceTypeLoadBalancer"
    and "Ingress (LoadBalancer (Status svc)) = []"
    and "written = (withIngress [\<lparr>IP = '''', Hostname = Name svc @ ''-'' @ Namespace svc\<rparr>] svc)"
  shows "updateCalls (snd (syncServices key c)) = updateCalls c @ [(namespace, written)]
       \<and> (\<forall>e. updateStatusErr c namespace written = Some e \<longrightarrow>
              fst (syncServices key c) = Returned (Some e)
            \<and> serviceTracker (snd (syncServices key c)) = serviceTracker c)
       \<and> (\<forall>p ps. updateStatusErr c namespace written = None \<and> Ports (Spec svc) = p # ps \<longrightarrow>
              fst (syncServices key c) = Returned None
            \<and> serviceTracker (snd (syncServices key c)) = (serviceTracker c)(key \<mapsto>
                 \<lparr>hostname = Name svc @ ''-'' @ Namespace svc,
                  service = JoinHostPort (ClusterIP (Spec svc)) (Itoa (sint (Port p)))\<rparr>))
       \<and> (serviceTracker (snd (syncServices key c)) \<noteq> serviceTracker c \<longrightarrow>
              updateStatusErr c namespace written = None)"
proof (cases "updateStatusErr c namespace written")
  case (Some e)
  with assms show ?thesis
    by (simp add: sync_LoadBalancer assign_fresh_failure)
next
  case None
  show ?thesis
  proof (cases "Ports (Spec svc)")
    case Nil
    with None assms show ?thesis
      by (simp add: sync_LoadBalancer assign_fresh_panic)
  next
    case (Cons p ps)
    with None assms show ?thesis
      by (simp add: sync_LoadBalancer assign_fresh_success)
  qed
qed

theorem assignment_atomicity_witness:
  "updateCalls (snd (syncServices ''default/web'' failingController))
     = [(''default'', withIngress [\<lparr>IP = '''', Hostname = ''web-default''\<rparr>] webService)]
   \<and> fst (syncServices ''default/web'' failingController)
     = Returned (Some (StatusFailure ''unavailable''))
   \<and> serviceTracker (snd (syncServices ''default/web'' failingController)) = Map.empty
   \<and> fst (syncServices ''default/web'' freshController) = Returned None
   \<and> serviceTracker (snd (syncServices ''default/web'' freshController))
     = [''default/web'' \<mapsto> \<lparr>hostname = ''web-default'', service = ''10.0.0.5:80''\<rparr>]"
proof -
  let ?written = "withIngress [\<lparr>IP = '''', Hostname = ''web-default''\<rparr>] webService"
  have down: "updateStatusErr failingController ''default'' ?written
                = Some (StatusFailure ''unavailable'')"
    by (simp add: failingController_def example_defs)
  have up: "updateStatusErr freshController ''default'' ?written = None
              \<and> Ports (Spec webService) = [\<lparr>Port = 80\<rparr>]"
    by (simp add: freshController_def example_defs)
  note F = assignment_atomicity [of "''default/web''" "''default''" "''web''" failingController
      webService ?written]
  note S = assignment_atomicity [of "''default/web''" "''default''" "''web''" freshController
      webService ?written]
  have hF: "updateCalls (snd (syncServices ''default/web'' failingController)) = [(''default'', ?written)]
     \<and> fst (syncServices ''default/web'' failingController)
         = Returned (Some (StatusFailure ''unavailable''))
     \<and> serviceTracker (snd (syncServices ''default/web'' failingController)) = Map.empty"
    using F down by (simp add: failingController_def example_defs library_defs)
  have hS: "fst (syncServices ''default/web'' freshController) = Returned None
     \<and> serviceTracker (snd (syncServices ''default/web'' freshController))
       = [''default/web'' \<mapsto> \<lparr>hostname = ''web-default'', service = ''10.0.0.5:80''\<rparr>]"
    using S up by (simp add: freshController_def example_defs library_defs)
  from hF hS show ?thesis by simp
qed

theorem assignment_ip_only_counterexample:
  "services ipOnlyController (''default'', ''web'') = Inr ipOnlyService
   \<and> Type (Spec ipOnlyService) = ServiceTypeLoadBalancer
   \<and> map Hostname (Ingress (LoadBalancer (Status ipOnlyService))) = ['''']
   \<and> fst (syncServices ''default/web'' ipOnlyController) = Returned None
   \<and> updateCalls (snd (syncServices ''default/web'' ipOnlyController)) = []
   \<and> serviceTracker (snd (syncServices ''default/web'' ipOnlyController)) ''default/web''
       = Some \<lparr>hostname = '''', service = ''10.0.0.5:80''\<rparr>"
  by (simp add: ipOnlyController_def ipOnlyService_def example_defs library_defs sync_defs)

text \<open>
  C6, hostname: on the assignment path the hostname written to the status, and stored in the
  tracker when the call succeeds, is the service name, then "-", then the namespace. The
  configuration, and so its domain, has no effect on \<^verbatim>\<open>syncServices\<close>: with any other
  configuration the result is the same and the state differs in the configuration only.
\<close>

theorem deterministic_hostname:
  assumes "SplitMetaNamespaceKey key = Inr (namespace, name)"
    and "services c (namespace, name) = Inr svc"
    and "Type (Spec svc) = ServiceTypeLoadBalancer"
    and "Ingress (LoadBalancer (Status svc)) = []"
  shows "updateCalls (snd (syncServices key c)) = updateCalls c @
            [(namespace, withIngress [\<lparr>IP = '''', Hostname = Name svc @ ''-'' @ Namespace svc\<rparr>] svc)]
       \<and> (fst (syncServices key c) = Returned None \<longrightarrow>
            map_option hostname (serviceTracker (snd (syncServices key c)) key)
              = Some (Name svc @ ''-'' @ Namespace svc))
       \<and> (\<forall>cfg. syncServices key (c\<lparr>config := cfg\<rparr>)
              = (fst (syncServices key c), (snd (syncServices key c))\<lparr>config := cfg\<rparr>))"
  using assms
  by (simp add: withIngress_def sync_defs split: option.split list.split)

theorem deterministic_hostname_witness:
  "updateCalls (snd (syncServices ''default/web'' freshController))
     = [(''default'', withIngress [\<lparr>IP = '''', Hostname = ''web-default''\<rparr>] webService)]
   \<and> map_option hostname (serviceTracker (snd (syncServices ''default/web'' freshController))
         ''default/web'') = Some ''web-default''
   \<and> syncServices ''default/web''
        (freshController\<lparr>config := \<lparr>Domain = ''example.com'', TunnelID = '''', CredentialsFile = ''''\<rparr>\<rparr>)
     = (fst (syncServices ''default/web'' freshController),
        (snd (syncServices ''default/web'' freshController))
          \<lparr>config := \<lparr>Domain = ''example.com'', TunnelID = '''', CredentialsFile = ''''\<rparr>\<rparr>)"
proof -
  have h: "SplitMetaNamespaceKey ''default/web'' = Inr (''default'', ''web'')"
    "services freshController (''default'', ''web'') = Inr webService"
    "Type (Spec webService) = ServiceTypeLoadBalancer"
    "Ingress (LoadBalancer (Status webService)) = []"
    by (simp_all add: freshController_def example_defs library_defs)
  note T = deterministic_hostname [OF h]
  have ok: "fst (syncServices ''default/web'' freshController) = Returned None"
    by (simp add: freshController_def example_defs library_defs sync_defs)
  have "updateCalls (snd (syncServices ''default/web'' freshController))
     = [(''default'', withIngress [\<lparr>IP = '''', Hostname = ''web-default''\<rparr>] webService)]"
    using T [THEN conjunct1] by (simp add: freshController_def NewController_def webService_def)
  moreover have "map_option hostname (serviceTracker (snd (syncServices ''default/web'' freshController))
         ''default/web'') = Some ''web-default''"
    using T [THEN conjunct2, THEN conjunct1, THEN mp, OF ok] by (simp add: webService_def)
  moreover note T [THEN conjunct2, THEN conjunct2, THEN spec]
  ultimately show ?thesis by (intro conjI)
qed

text \<open>
  C7, idempotence: when \<^verbatim>\<open>syncServices\<close> has returned nil for a cached LoadBalancer
  service, a second call on the resulting state (whose cached object carries the status the
  first call wrote) returns nil again and leaves the whole state as it is, whatever the API
  server would answer: the tracker entry is the same and no further status write is issued.
\<close>

theorem reconcile_idempotent:
  assumes "SplitMetaNamespaceKey key = Inr (namespace, name)"
    and "services c (namespace, name) = Inr svc"
    and "Type (Spec svc) = ServiceTypeLoadBalancer"
    and "syncServices key c = (Returned None, c1)"
  shows "syncServices key (c1\<lparr>updateStatusErr := api\<rparr>)
           = (Returned None, c1\<lparr>updateStatusErr := api\<rparr>)"
proof -
  from assms have run: "assignService key namespace name svc c = (Returned None, c1)"
    by (simp add: sync_LoadBalancer)
  have ports: "Ports (Spec svc) \<noteq> []"
  proof
    assume none: "Ports (Spec svc) = []"
    show False
    proof (cases "Ingress (LoadBalancer (Status svc))")
      case (Cons i rest)
      from assign_adopt_panic [OF Cons none] run show False by simp
    next
      case Nil
      show False
      proof (cases "updateStatusErr c namespace
           (withIngress [\<lparr>IP = '''', Hostname = Name svc @ ''-'' @ Namespace svc\<rparr>] svc)")
        case None
        from assign_fresh_panic [OF Nil None none] run show False by simp
      next
        case (Some e)
        from assign_fresh_failure [OF Nil Some] run show False by simp
      qed
    qed
  qed
  then obtain p ps where ps: "Ports (Spec svc) = p # ps"
    by (cases "Ports (Spec svc)") auto
  show ?thesis
  proof (cases "Ingress (LoadBalancer (Status svc))")
    case (Cons i rest)
    from assign_adopt [OF Cons ps] run
    have c1: "c1 = c\<lparr>serviceTracker := (serviceTracker c)(key \<mapsto>
                 \<lparr>hostname = Hostname i,
                  service = JoinHostPort (ClusterIP (Spec svc)) (Itoa (sint (Port p)))\<rparr>)\<rparr>"
      by simp
    have "syncServices key (c1\<lparr>updateStatusErr := api\<rparr>)
            = assignService key namespace name svc (c1\<lparr>updateStatusErr := api\<rparr>)"
      using assms(1-3) by (intro sync_LoadBalancer) (simp_all add: c1)
    also have "\<dots> = (Returned None, c1\<lparr>updateStatusErr := api\<rparr>)"
      by (simp add: assign_adopt [OF Cons ps] c1)
    finally show ?thesis .
  next
    case Nil
    let ?svc' = "withIngress [\<lparr>IP = '''', Hostname = Name svc @ ''-'' @ Namespace svc\<rparr>] svc"
    have ok: "updateStatusErr c namespace ?svc' = None"
    proof (cases "updateStatusErr c namespace ?svc'")
      case (Some e)
      from assign_fresh_failure [OF Nil Some] run show ?thesis by simp
    qed simp
    from assign_fresh_success [OF Nil ok ps] run
    have c1: "c1 = c\<lparr>services := (services c)((namespace, name) := Inr ?svc'),
              updateCalls := updateCalls c @ [(namespace, ?svc')],
              serviceTracker := (serviceTracker c)(key \<mapsto>
                 \<lparr>hostname = Name svc @ ''-'' @ Namespace svc,
                  service = JoinHostPort (ClusterIP (Spec svc)) (Itoa (sint (Port p)))\<rparr>)\<rparr>"
      by simp
    have ing': "Ingress (LoadBalancer (Status ?svc'))
                  = [\<lparr>IP = '''', Hostname = Name svc @ ''-'' @ Namespace svc\<rparr>]"
      and ps': "Ports (Spec ?svc') = p # ps"
      and ty': "Type (Spec ?svc') = ServiceTypeLoadBalancer"
      and ip': "ClusterIP (Spec ?svc') = ClusterIP (Spec svc)"
      using ps assms(3) by (simp_all add: withIngress_def)
    have "syncServices key (c1\<lparr>updateStatusErr := api\<rparr>)
            = assignService key namespace name ?svc' (c1\<lparr>updateStatusErr := api\<rparr>)"
      using assms(1) ty' by (intro sync_LoadBalancer) (simp_all add: c1)
    also have "\<dots> = (Returned None, (c1\<lparr>updateStatusErr := api\<rparr>)
            \<lparr>serviceTracker := (serviceTracker (c1\<lparr>updateStatusErr := api\<rparr>))(key \<mapsto>
                 \<lparr>hostname = Hostname \<lparr>IP = '''', Hostname = Name svc @ ''-'' @ Namespace svc\<rparr>,
                  service = JoinHostPort (ClusterIP (Spec ?svc')) (Itoa (sint (Port p)))\<rparr>)\<rparr>)"
      by (rule assign_adopt [OF ing' ps'])
    also have "\<dots> = (Returned None, c1\<lparr>updateStatusErr := api\<rparr>)"
      by (simp add: c1 withIngress_def)
    finally show ?thesis .
  qed
qed

theorem reconcile_idempotent_witness:
  "syncServices ''default/web''
     ((snd (syncServices ''default/web'' freshController))\<lparr>updateStatusErr := apiDown\<rparr>)
   = (Returned None, (snd (syncServices ''default/web'' freshController))\<lparr>updateStatusErr := apiDown\<rparr>)"
proof -
  have h: "SplitMetaNamespaceKey ''default/web'' = Inr (''default'', ''web'')"
    "services freshController (''default'', ''web'') = Inr webService"
    "Type (Spec webService) = ServiceTypeLoadBalancer"
    by (simp_all add: freshController_def example_defs library_defs)
  have "fst (syncServices ''default/web'' freshController) = Returned None"
    by (simp add: freshController_def example_defs library_defs sync_defs)
  then have first: "syncServices ''default/web'' freshController
      = (Returned None, snd (syncServices ''default/web'' freshController))"
    by (simp add: prod_eq_iff)
  show ?thesis
    by (rule reconcile_idempotent [OF h first])
qed

text \<open>
  C10, no declared port: for a cached LoadBalancer service with an empty port list,
  \<^verbatim>\<open>syncServices\<close> panics on the adoption path with the state untouched, and on the
  assignment path it panics after a status write that succeeded, with the write issued and
  the tracker unchanged. When that write fails, its error is returned before the port list
  is indexed, and there is no panic.
\<close>

theorem zero_ports_panic:
  assumes "SplitMetaNamespaceKey key = Inr (namespace, name)"
    and "services c (namespace, name) = Inr svc"
    and "Type (Spec svc) = ServiceTypeLoadBalancer"
    and "Ports (Spec svc) = []"
    and "written = withIngress [\<lparr>IP = '''', Hostname = Name svc @ ''-'' @ Namespace svc\<rparr>] svc"
  shows "(Ingress (LoadBalancer (Status svc)) \<noteq> [] \<longrightarrow> syncServices key c = (Panicked, c))
       \<and> (Ingress (LoadBalancer (Status svc)) = [] \<and> updateStatusErr c namespace written = None \<longrightarrow>
              fst (syncServices key c) = Panicked
            \<and> serviceTracker (snd (syncServices key c)) = serviceTracker c
            \<and> updateCalls (snd (syncServices key c)) = updateCalls c @ [(namespace, written)])
       \<and> (\<forall>e. Ingress (LoadBalancer (Status svc)) = [] \<and> updateStatusErr c namespace written = Some e \<longrightarrow>
              fst (syncServices key c) = Returned (Some e)
            \<and> serviceTracker (snd (syncServices key c)) = serviceTracker c)"
proof (intro conjI allI impI)
  assume "Ingress (LoadBalancer (Status svc)) \<noteq> []"
  then obtain i rest where "Ingress (LoadBalancer (Status svc)) = i # rest"
    by (cases "Ingress (LoadBalancer (Status svc))") auto
  from assign_adopt_panic [OF this assms(4)] assms(1-3)
  show "syncServices key c = (Panicked, c)"
    by (simp add: sync_LoadBalancer)
next
  assume a: "Ingress (LoadBalancer (Status svc)) = [] \<and> updateStatusErr c namespace written = None"
  with assms have r: "syncServices key c = (Panicked,
            c\<lparr>services := (services c)((namespace, name) := Inr written),
              updateCalls := updateCalls c @ [(namespace, written)]\<rparr>)"
    by (simp add: sync_LoadBalancer assign_fresh_panic)
  show "fst (syncServices key c) = Panicked" by (simp add: r)
  show "serviceTracker (snd (syncServices key c)) = serviceTracker c" by (simp add: r)
  show "updateCalls (snd (syncServices key c)) = updateCalls c @ [(namespace, written)]"
    by (simp add: r)
next
  fix e
  assume a: "Ingress (LoadBalancer (Status svc)) = [] \<and> updateStatusErr c namespace written = Some e"
  with assms have r: "syncServices key c = (Returned (Some e),
            c\<lparr>services := (services c)((namespace, name) := Inr written),
              updateCalls := updateCalls c @ [(namespace, written)]\<rparr>)"
    by (simp add: sync_LoadBalancer assign_fresh_failure)
  show "fst (syncServices key c) = Returned (Some e)" by (simp add: r)
  show "serviceTracker (snd (syncServices key c)) = serviceTracker c" by (simp add: r)
qed

theorem zero_ports_panic_witness:
  "fst (syncServices ''default/web'' portlessAcceptedController) = Panicked
   \<and> serviceTracker (snd (syncServices ''default/web'' portlessAcceptedController)) = Map.empty
   \<and> updateCalls (snd (syncServices ''default/web'' portlessAcceptedController))
      = [(''default'', withIngress [\<lparr>IP = '''', Hostname = ''web-default''\<rparr>] (withPorts [] webService))]"
proof -
  have h: "SplitMetaNamespaceKey ''default/web'' = Inr (''default'', ''web'')"
    "services portlessAcceptedController (''default'', ''web'') = Inr (withPorts [] webService)"
    "Type (Spec (withPorts [] webService)) = ServiceTypeLoadBalancer"
    "Ports (Spec (withPorts [] webService)) = []"
    "withIngress [\<lparr>IP = '''', Hostname = ''web-default''\<rparr>] (withPorts [] webService)
       = withIngress [\<lparr>IP = '''', Hostname = Name (withPorts [] webService) @ ''-''
            @ Namespace (withPorts [] webService)\<rparr>] (withPorts [] webService)"
    by (simp_all add: portlessAcceptedController_def example_defs library_defs)
  have a: "Ingress (LoadBalancer (Status (withPorts [] webService))) = []
      \<and> updateStatusErr portlessAcceptedController ''default''
         (withIngress [\<lparr>IP = '''', Hostname = ''web-default''\<rparr>] (withPorts [] webService)) = None"
    by (simp add: portlessAcceptedController_def example_defs)
  from zero_ports_panic [OF h, THEN conjunct2, THEN conjunct1, THEN mp, OF a]
  show ?thesis
    by (simp add: portlessAcceptedController_def NewController_def)
qed

theorem zero_ports_write_error_counterexample:
  "Type (Spec (withPorts [] webService)) = ServiceTypeLoadBalancer
   \<and> Ports (Spec (withPorts [] webService)) = []
   \<and> services portlessController (''default'', ''web'') = Inr (withPorts [] webService)
   \<and> fst (syncServices ''default/web'' portlessController)
       = Returned (Some (StatusFailure ''unavailable''))"
  by (simp add: portlessController_def example_defs library_defs sync_defs)

text \<open>
  The release of an entry that has a hostname and an address, for a cached service that is
  not of type LoadBalancer: one status write with the load-balancer status cleared; a write
  error is returned and leaves the tracker as it was, a successful write is followed by the
  removal of the entry and nil. Without an entry the call returns nil and changes nothing.
  The second lemma runs it on the service "web" after its type changed.
\<close>

lemma release_of_tracked_entry:
  assumes "SplitMetaNamespaceKey key = Inr (namespace, name)"
    and "services c (namespace, name) = Inr svc"
    and "Type (Spec svc) \<noteq> ServiceTypeLoadBalancer"
  shows "(\<forall>i. serviceTracker c key = Some i \<and> hostname i \<noteq> '''' \<and> service i \<noteq> '''' \<longrightarrow>
            updateCalls (snd (syncServices key c)) = updateCalls c @ [(namespace, withIngress [] svc)]
          \<and> (\<forall>e. updateStatusErr c namespace (withIngress [] svc) = Some e \<longrightarrow>
                 fst (syncServices key c) = Returned (Some e)
               \<and> serviceTracker (snd (syncServices key c)) = serviceTracker c)
          \<and> (updateStatusErr c namespace (withIngress [] svc) = None \<longrightarrow>
                 fst (syncServices key c) = Returned None
               \<and> serviceTracker (snd (syncServices key c)) = (serviceTracker c)(key := None)))
       \<and> (serviceTracker c key = None \<longrightarrow> syncServices key c = (Returned None, c))"
proof (intro conjI allI impI)
  assume "serviceTracker c key = None"
  then have "hostname (getServiceIngress c key) = ''''"
    by (simp add: getServiceIngress_def)
  then show "syncServices key c = (Returned None, c)"
    using assms by (simp add: sync_other_type release_untracked)
next
  fix i
  assume tracked: "serviceTracker c key = Some i \<and> hostname i \<noteq> '''' \<and> service i \<noteq> ''''"
  then have t: "hostname (getServiceIngress c key) \<noteq> ''''" "service (getServiceIngress c key) \<noteq> ''''"
    by (simp_all add: getServiceIngress_def)
  have run: "syncServices key c = releaseService key namespace name (Some svc) c"
    by (rule sync_other_type [OF assms])
  show "updateCalls (snd (syncServices key c)) = updateCalls c @ [(namespace, withIngress [] svc)]"
    by (cases "updateStatusErr c namespace (withIngress [] svc)")
      (simp_all add: run release_retyped_success [OF t] release_retyped_failure [OF t])
  {
    fix e
    assume "updateStatusErr c namespace (withIngress [] svc) = Some e"
    note r = release_retyped_failure [OF t this]
    show "fst (syncServices key c) = Returned (Some e)" by (simp add: run r)
    show "serviceTracker (snd (syncServices key c)) = serviceTracker c" by (simp add: run r)
  }
  {
    assume "updateStatusErr c namespace (withIngress [] svc) = None"
    note r = release_retyped_success [OF t this]
    show "fst (syncServices key c) = Returned None" by (simp add: run r)
    show "serviceTracker (snd (syncServices key c)) = (serviceTracker c)(key := None)"
      by (simp add: run r)
  }
qed

lemma trackedController_entry:
  "serviceTracker trackedController ''default/web''
     = Some \<lparr>hostname = ''web-default'', service = ''10.0.0.5:80''\<rparr>"
  by (simp add: trackedController_def freshController_def example_defs library_defs sync_defs)

lemma release_of_tracked_entry_example:
  "updateCalls (snd (syncServices ''default/web'' trackedController))
     = updateCalls trackedController @ [(''default'', withType ''ClusterIP'' webService)]
   \<and> fst (syncServices ''default/web'' trackedController) = Returned None
   \<and> serviceTracker (snd (syncServices ''default/web'' trackedController)) ''default/web'' = None"
proof -
  let ?svc = "withType ''ClusterIP'' (withIngress [\<lparr>IP = '''', Hostname = ''web-default''\<rparr>] webService)"
  have h: "SplitMetaNamespaceKey ''default/web'' = Inr (''default'', ''web'')"
    "services trackedController (''default'', ''web'') = Inr ?svc"
    "Type (Spec ?svc) \<noteq> ServiceTypeLoadBalancer"
    by (simp_all add: trackedController_def example_defs library_defs)
  have tracked: "serviceTracker trackedController ''default/web''
       = Some \<lparr>hostname = ''web-default'', service = ''10.0.0.5:80''\<rparr>
     \<and> hostname \<lparr>hostname = ''web-default'', service = ''10.0.0.5:80''\<rparr> \<noteq> ''''
     \<and> service \<lparr>hostname = ''web-default'', service = ''10.0.0.5:80''\<rparr> \<noteq> ''''"
    by (simp add: trackedController_entry)
  have ok: "updateStatusErr trackedController ''default'' (withIngress [] ?svc) = None"
    by (simp add: trackedController_def freshController_def example_defs sync_defs library_defs)
  have cleared: "withIngress [] ?svc = withType ''ClusterIP'' webService"
    by (simp add: example_defs)
  note T = release_of_tracked_entry [OF h, THEN conjunct1, THEN spec, THEN mp, OF tracked]
  from T [THEN conjunct1] T [THEN conjunct2, THEN conjunct2, THEN mp, OF ok]
  show ?thesis
    by (simp add: cleared)
qed

text \<open>
  C4, release: the test that stands for "we were not tracking this service" reads the
  zero \<^verbatim>\<open>ingress\<close> of a missing key, and so it also holds for a stored entry whose hostname
  (or address) is empty. For a cached service that is not of type LoadBalancer and a key
  with such an entry, \<^verbatim>\<open>syncServices\<close> returns nil and changes nothing: the status is not
  cleared, no write is issued, and the entry stays in the tracker.
\<close>

theorem release_skips_stored_entry:
  assumes "SplitMetaNamespaceKey key = Inr (namespace, name)"
    and "services c (namespace, name) = Inr svc"
    and "Type (Spec svc) \<noteq> ServiceTypeLoadBalancer"
    and "serviceTracker c key = Some i"
    and "hostname i = '''' \<or> service i = ''''"
  shows "syncServices key c = (Returned None, c)"
proof -
  from assms(4,5)
  have "hostname (getServiceIngress c key) = '''' \<or> service (getServiceIngress c key) = ''''"
    by (simp add: getServiceIngress_def)
  then show ?thesis
    using assms(1-3) by (simp add: sync_other_type release_untracked)
qed

theorem release_skips_stored_entry_witness:
  "services retypedController (''default'', ''web'') = Inr (withType ''ClusterIP'' ipOnlyService)
   \<and> serviceTracker retypedController ''default/web''
       = Some \<lparr>hostname = '''', service = ''10.0.0.5:80''\<rparr>
   \<and> syncServices ''default/web'' retypedController = (Returned None, retypedController)
   \<and> updateCalls retypedController = []"
proof -
  have h: "SplitMetaNamespaceKey ''default/web'' = Inr (''default'', ''web'')"
    "services retypedController (''default'', ''web'') = Inr (withType ''ClusterIP'' ipOnlyService)"
    "Type (Spec (withType ''ClusterIP'' ipOnlyService)) \<noteq> ServiceTypeLoadBalancer"
    "serviceTracker retypedController ''default/web''
       = Some \<lparr>hostname = '''', service = ''10.0.0.5:80''\<rparr>"
    "hostname \<lparr>hostname = '''', service = ''10.0.0.5:80''\<rparr> = ''''
       \<or> service \<lparr>hostname = '''', service = ''10.0.0.5:80''\<rparr> = ''''"
    by (simp_all add: retypedController_def adoptedIpOnlyController_def ipOnlyController_def
        ipOnlyService_def example_defs library_defs sync_defs)
  have calls: "updateCalls retypedController = []"
    by (simp add: retypedController_def adoptedIpOnlyController_def ipOnlyController_def
        ipOnlyService_def example_defs library_defs sync_defs)
  from release_skips_stored_entry [OF h] h(2,4) calls
  show ?thesis by simp
qed

text \<open>
  What a nil return of \<^verbatim>\<open>syncServices\<close> establishes: the service qualifies as it did
  before; if it qualifies, the tracker has an entry for the key, with the hostname the
  status carries; if it does not, the tracker reads as untracked for the key. When before
  the call the key had no entry, or one with non-empty hostname and address, the entry
  exists afterwards exactly when the service qualifies. Entries of other keys are untouched.
\<close>

lemma membership_after_success:
  assumes "syncServices key c = (Returned None, c')"
  shows "eligible c' key = eligible c key
       \<and> (eligible c' key \<longrightarrow>
             serviceTracker c' key \<noteq> None
           \<and> map_option hostname (serviceTracker c' key) = statusHostname c' key)
       \<and> (\<not> eligible c' key \<longrightarrow>
             hostname (getServiceIngress c' key) = '''' \<or> service (getServiceIngress c' key) = '''')
       \<and> (serviceTracker c key = None
            \<or> hostname (getServiceIngress c key) \<noteq> '''' \<and> service (getServiceIngress c key) \<noteq> ''''
          \<longrightarrow> (serviceTracker c' key \<noteq> None) = eligible c' key)
       \<and> (\<forall>k. k \<noteq> key \<longrightarrow> serviceTracker c' k = serviceTracker c k)"
  using assms
proof (cases rule: sync_success_cases)
  case (adopted namespace name svc i rest p ps)
  then show ?thesis
    by (simp add: eligible_def statusHostname_def)
next
  case (assigned namespace name svc p ps)
  then show ?thesis
    by (simp add: eligible_def statusHostname_def withIngress_def)
next
  case untracked
  then show ?thesis
    by (auto simp add: getServiceIngress_def)
next
  case (deleted namespace name)
  then show ?thesis
    by (simp add: eligible_def getServiceIngress_def)
next
  case (retyped namespace name svc)
  then show ?thesis
    by (simp add: eligible_def withIngress_def getServiceIngress_def)
qed

text \<open>
  C1, membership: when the service of the key is gone from the cache and the tracker holds
  an entry for the key whose hostname (or address) is empty, \<^verbatim>\<open>syncServices\<close> returns nil and
  changes nothing. After this successful call the tracker still has an entry for a key whose
  service does not exist. Such an entry is stored by the adoption of a status ingress that
  carries an address and no hostname.
\<close>

theorem deleted_service_entry_kept:
  assumes "SplitMetaNamespaceKey key = Inr (namespace, name)"
    and "services c (namespace, name) = Inl err"
    and "IsNotFound err"
    and "serviceTracker c key = Some i"
    and "hostname i = '''' \<or> service i = ''''"
  shows "syncServices key c = (Returned None, c)"
proof -
  from assms(4,5)
  have "hostname (getServiceIngress c key) = '''' \<or> service (getServiceIngress c key) = ''''"
    by (simp add: getServiceIngress_def)
  then show ?thesis
    using assms(1-3) by (simp add: sync_not_found release_untracked)
qed

theorem deleted_service_entry_kept_witness:
  "serviceTracker ipOnlyController ''default/web'' = None
   \<and> adoptedIpOnlyController = snd (syncServices ''default/web'' ipOnlyController)
   \<and> services deletedController (''default'', ''web'') = Inl StatusNotFound
   \<and> serviceTracker deletedController ''default/web''
       = Some \<lparr>hostname = '''', service = ''10.0.0.5:80''\<rparr>
   \<and> syncServices ''default/web'' deletedController = (Returned None, deletedController)"
proof -
  have h: "SplitMetaNamespaceKey ''default/web'' = Inr (''default'', ''web'')"
    "services deletedController (''default'', ''web'') = Inl StatusNotFound"
    "IsNotFound StatusNotFound"
    "serviceTracker deletedController ''default/web''
       = Some \<lparr>hostname = '''', service = ''10.0.0.5:80''\<rparr>"
    "hostname \<lparr>hostname = '''', service = ''10.0.0.5:80''\<rparr> = ''''
       \<or> service \<lparr>hostname = '''', service = ''10.0.0.5:80''\<rparr> = ''''"
    by (simp_all add: deletedController_def adoptedIpOnlyController_def ipOnlyController_def
        ipOnlyService_def example_defs library_defs sync_defs)
  have start: "serviceTracker ipOnlyController ''default/web'' = None"
    by (simp add: ipOnlyController_def NewController_def)
  from deleted_service_entry_kept [OF h] h(2,4) start
  show ?thesis by (simp add: adoptedIpOnlyController_def)
qed

section \<open>Properties of the worker\<close>

lemma handleErr_success:
  "handleErr None key c =
     ([], c\<lparr>queue := (queue c)\<lparr>failures := (failures (queue c))(key := 0)\<rparr>\<rparr>)"
  by (simp add: handleErr_def Forget_def)

lemma handleErr_retry:
  assumes "failures (queue c) key < 12"
  shows "snd (handleErr (Some e) key c) =
           c\<lparr>queue := (queue c)
               \<lparr>failures := (failures (queue c))(key := failures (queue c) key + 1),
                waiting := waiting (queue c) @ [(key, failures (queue c) key)]\<rparr>\<rparr>"
  using assms
  by (simp add: handleErr_def NumRequeues_def maxRetries_def AddRateLimited_def
      split: sum.split prod.split)

lemma handleErr_drop:
  assumes "12 \<le> failures (queue c) key"
  shows "snd (handleErr (Some e) key c) =
           c\<lparr>queue := (queue c)\<lparr>failures := (failures (queue c))(key := 0)\<rparr>\<rparr>"
    and "HandledError e \<in> set (fst (handleErr (Some e) key c))"
  using assms
  by (simp_all add: handleErr_def NumRequeues_def maxRetries_def Forget_def
      split: sum.split prod.split)

lemma failRepeatedly_counts:
  assumes "failures (queue c) key = 0" and "n \<le> 12"
  shows "failures (queue (failRepeatedly n e key c)) key = n
       \<and> waiting (queue (failRepeatedly n e key c))
           = waiting (queue c) @ map (\<lambda>i. (key, i)) [0..<n]"
  using assms(2)
proof (induction n)
  case 0
  then show ?case by (simp add: assms(1))
next
  case (Suc n)
  then have IH: "failures (queue (failRepeatedly n e key c)) key = n"
    "waiting (queue (failRepeatedly n e key c)) = waiting (queue c) @ map (\<lambda>i. (key, i)) [0..<n]"
    by simp_all
  from Suc.prems IH(1) have "failures (queue (failRepeatedly n e key c)) key < 12" by simp
  from handleErr_retry [OF this, of e] IH show ?case by simp
qed

lemma exhausted_count: "failures (queue exhaustedController) ''default/web'' = 12"
  unfolding exhaustedController_def
  by (rule failRepeatedly_counts [THEN conjunct1])
    (simp_all add: failingController_def NewController_def)

lemma exhausted_waiting:
  "waiting (queue exhaustedController) = map (\<lambda>i. (''default/web'', i)) [0..<12]"
  using failRepeatedly_counts [of failingController "''default/web''" 12 "StatusFailure ''unavailable''",
      THEN conjunct2]
  by (simp add: exhaustedController_def failingController_def NewController_def)

text \<open>
  C2, bounded retry: \<^verbatim>\<open>handleErr\<close> with a nil error resets the attempt counter of the key to
  zero. With an error, while the counter is below 12 the key is re-enqueued with rate
  limiting (the counter goes up by one and the key joins the waiting keys); once the
  counter has reached 12 the key is not re-enqueued, its counter is reset to zero and the
  error is handed to the error handler.
\<close>

theorem bounded_retry:
  "handleErr None key c =
     ([], c\<lparr>queue := (queue c)\<lparr>failures := (failures (queue c))(key := 0)\<rparr>\<rparr>)
   \<and> (failures (queue c) key < 12 \<longrightarrow>
        snd (handleErr (Some e) key c) =
          c\<lparr>queue := (queue c)
              \<lparr>failures := (failures (queue c))(key := failures (queue c) key + 1),
               waiting := waiting (queue c) @ [(key, failures (queue c) key)]\<rparr>\<rparr>)
   \<and> (12 \<le> failures (queue c) key \<longrightarrow>
        snd (handleErr (Some e) key c) =
          c\<lparr>queue := (queue c)\<lparr>failures := (failures (queue c))(key := 0)\<rparr>\<rparr>
        \<and> HandledError e \<in> set (fst (handleErr (Some e) key c)))"
  by (simp add: handleErr_success handleErr_retry handleErr_drop)

theorem bounded_retry_witness:
  "waiting (queue (snd (handleErr (Some (StatusFailure ''unavailable'')) ''default/web''
       failingController))) = [(''default/web'', 0)]
   \<and> failures (queue (snd (handleErr (Some (StatusFailure ''unavailable'')) ''default/web''
       failingController))) ''default/web'' = 1
   \<and> failures (queue (snd (handleErr (Some (StatusFailure ''unavailable'')) ''default/web''
       exhaustedController))) ''default/web'' = 0
   \<and> waiting (queue (snd (handleErr (Some (StatusFailure ''unavailable'')) ''default/web''
       exhaustedController))) = waiting (queue exhaustedController)"
proof -
  have lt: "failures (queue failingController) ''default/web'' < 12"
    by (simp add: failingController_def NewController_def)
  have ge: "12 \<le> failures (queue exhaustedController) ''default/web''"
    by (simp add: exhausted_count)
  from bounded_retry [of "''default/web''" failingController "StatusFailure ''unavailable''",
      THEN conjunct2, THEN conjunct1, THEN mp, OF lt]
    bounded_retry [of "''default/web''" exhaustedController "StatusFailure ''unavailable''",
      THEN conjunct2, THEN conjunct2, THEN mp, OF ge]
  show ?thesis
    by (simp add: failingController_def NewController_def)
qed

text \<open>
  C8, malformed key: for a key that does not split into namespace and name,
  \<^verbatim>\<open>syncServices\<close> returns the key-format error without touching the state, and the worker
  logs the failed split and treats the key as any failing key: re-enqueued with rate limiting
  while its counter is below 12, dropped with its counter reset at 12.
\<close>

theorem malformed_key_retried:
  assumes "SplitMetaNamespaceKey key = Inl err"
  shows "syncServices key c = (Returned (Some err), c)
       \<and> (failures (queue c) key < 12 \<longrightarrow>
            processNextWorkItem (key, False) c =
              (Returned True,
               [FailedToSplitKey key err, RetryingService '''' '''' err],
               c\<lparr>queue := (queue c)
                   \<lparr>failures := (failures (queue c))(key := failures (queue c) key + 1),
                    waiting := waiting (queue c) @ [(key, failures (queue c) key)]\<rparr>\<rparr>))
       \<and> (12 \<le> failures (queue c) key \<longrightarrow>
            processNextWorkItem (key, False) c =
              (Returned True,
               [FailedToSplitKey key err, DroppingService key err, HandledError err],
               c\<lparr>queue := (queue c)\<lparr>failures := (failures (queue c))(key := 0)\<rparr>\<rparr>))"
  using assms
  by (simp add: syncServices_def processNextWorkItem_def handleErr_def NumRequeues_def
      maxRetries_def AddRateLimited_def Forget_def)

theorem malformed_key_retried_witness:
  "processNextWorkItem (''a/b/c'', False) freshController =
     (Returned True,
      [FailedToSplitKey ''a/b/c'' (UnexpectedKeyFormat ''a/b/c''),
       RetryingService '''' '''' (UnexpectedKeyFormat ''a/b/c'')],
      freshController\<lparr>queue := (queue freshController)
         \<lparr>failures := (failures (queue freshController))(''a/b/c'' := failures (queue freshController) ''a/b/c'' + 1),
          waiting := waiting (queue freshController) @ [(''a/b/c'', failures (queue freshController) ''a/b/c'')]\<rparr>\<rparr>)"
proof -
  have h: "SplitMetaNamespaceKey ''a/b/c'' = Inl (UnexpectedKeyFormat ''a/b/c'')"
    by (simp add: SplitMetaNamespaceKey_def)
  have lt: "failures (queue freshController) ''a/b/c'' < 12"
    by (simp add: freshController_def NewController_def)
  show ?thesis
    by (rule malformed_key_retried [OF h, THEN conjunct2, THEN conjunct1, THEN mp, OF lt])
qed

theorem malformed_key_counterexample:
  "SplitMetaNamespaceKey ''a/b/c'' = Inl (UnexpectedKeyFormat ''a/b/c'')
   \<and> fst (syncServices ''a/b/c'' freshController) = Returned (Some (UnexpectedKeyFormat ''a/b/c''))
   \<and> waiting (queue (snd (snd (processNextWorkItem (''a/b/c'', False) freshController))))
       = [(''a/b/c'', 0)]"
  by (simp add: SplitMetaNamespaceKey_def syncServices_def processNextWorkItem_def handleErr_def
      NumRequeues_def maxRetries_def AddRateLimited_def freshController_def NewController_def)

section \<open>Properties of the configuration writer\<close>

lemma Write_missing_name:
  "path c = '''' \<Longrightarrow> Write yaml c fs = (Some MissingFileName, fs)"
  by (simp add: Write_def)

lemma Write_creates_directory:
  "path c \<noteq> '''' \<Longrightarrow> \<not> failing fs CallMkdirAll \<Longrightarrow>
     Dir (path c) \<in> directories (snd (Write yaml c fs))"
  by (simp add: Write_def MkdirAll_def sameFile_def Stat_def TempFile_def Rename_def
      Remove_def Let_def split: option.split)

lemma Write_creates_ancestors:
  "path c \<noteq> '''' \<Longrightarrow> \<not> failing fs CallMkdirAll \<Longrightarrow>
     set (ancestorsOf (Dir (path c))) \<subseteq> directories (snd (Write yaml c fs))"
  by (auto simp add: Write_def MkdirAll_def sameFile_def Stat_def TempFile_def Rename_def
      Remove_def Let_def split: option.split)

lemma ancestorsOf_example: "ancestorsOf ''/etc/cloudflared/conf'' = [''/etc'', ''/etc/cloudflared'']"
  by (simp add: ancestorsOf_def upt_rec)

text \<open>
  C9, configuration write: \<^verbatim>\<open>Write\<close> compares the temporary file with the target by file
  identity. When no call fails and the target already exists with exactly the bytes the
  encoder produces, the temporary file is still renamed over the target: afterwards the
  target names the newly created file, which is not the file it named before.
\<close>

theorem Write_replaces_equal_content:
  assumes "path c \<noteq> ''''"
    and "\<forall>call. \<not> failing fs call"
    and "entries fs (path c) = Some ino"
    and "ino < nextInode fs"
    and "contents fs ino = yaml c"
    and "path c \<noteq> tempName fs"
  shows "fst (Write yaml c fs) = None
       \<and> entries (snd (Write yaml c fs)) (path c) = Some (nextInode fs)
       \<and> nextInode fs \<noteq> ino
       \<and> contents (snd (Write yaml c fs)) (nextInode fs) = yaml c"
  using assms
  by (simp add: Write_def MkdirAll_def sameFile_def Stat_def tempName_def TempFile_def
      Rename_def Remove_def Let_def)

theorem Write_replaces_equal_content_witness:
  "contents upToDateDisk 1 = yamlOf (NewFromConfig noConfig)
   \<and> entries upToDateDisk ''config.yaml'' = Some 1
   \<and> fst (Write yamlOf (NewFromConfig noConfig) upToDateDisk) = None
   \<and> entries (snd (Write yamlOf (NewFromConfig noConfig) upToDateDisk)) ''config.yaml'' = Some 2
   \<and> contents (snd (Write yamlOf (NewFromConfig noConfig) upToDateDisk)) 2
       = yamlOf (NewFromConfig noConfig)"
proof -
  have h: "path (NewFromConfig noConfig) \<noteq> ''''"
    "\<forall>call. \<not> failing upToDateDisk call"
    "entries upToDateDisk (path (NewFromConfig noConfig)) = Some 1"
    "1 < nextInode upToDateDisk"
    "contents upToDateDisk 1 = yamlOf (NewFromConfig noConfig)"
    "path (NewFromConfig noConfig) \<noteq> tempName upToDateDisk"
    by (simp_all add: NewFromConfig_def defaultFilename_def upToDateDisk_def tempName_def)
  from Write_replaces_equal_content [where c = "NewFromConfig noConfig" and fs = upToDateDisk
      and yaml = yamlOf and ino = 1, OF h] h(3,5)
  show ?thesis
    by (simp add: NewFromConfig_def defaultFilename_def upToDateDisk_def)
qed

end
